theory Spec2Isabelle
  imports Main "HOL-Library.Sublist"
begin

unbundle bit_operations_syntax

section \<open>pysmu: the Python binding of libsmu\<close>

text \<open>
  The development embeds \<^verbatim>\<open>bindings/python/pysmu/libsmu.pyx\<close>: the classes
  \<^verbatim>\<open>Session\<close>, \<^verbatim>\<open>Device\<close> and \<^verbatim>\<open>Channel\<close>, which wrap the C++ objects
  \<^verbatim>\<open>smu::Session\<close> and \<^verbatim>\<open>smu::Device\<close>.

  The module is written for Python 2 (it reads \<^verbatim>\<open>e.message\<close>, compares the result of
  \<^verbatim>\<open>str(data).encode()\<close> with the literal \<^verbatim>\<open>'0'\<close> and returns \<^verbatim>\<open>map(ord, data)\<close>),
  with the \<^verbatim>\<open>enum34\<close> backport of \<^verbatim>\<open>Enum\<close>; the model follows those semantics.
  A method becomes a function that takes the state of the world and returns a result,
  \<open>Inl\<close> for a raised exception and \<open>Inr\<close> for a returned value, with the new state.
\<close>

subsection \<open>Enumerations\<close>

datatype Mode = HI_Z | SVMI | SIMV

fun Mode_value :: "Mode \<Rightarrow> int" where
  "Mode_value HI_Z = 0"
| "Mode_value SVMI = 1"
| "Mode_value SIMV = 2"

datatype LED = red | green | blue | all

fun LED_value :: "LED \<Rightarrow> int" where
  "LED_value red = 47"
| "LED_value green = 29"
| "LED_value blue = 28"
| "LED_value all = 0"

text \<open>
  Iterating over an \<^verbatim>\<open>Enum\<close> class. Python 2 keeps no order of the names in a class
  body, and the \<^verbatim>\<open>enum34\<close> backport, given no \<^verbatim>\<open>__order__\<close>, orders the members by
  their values: \<^verbatim>\<open>all\<close> (0), \<^verbatim>\<open>blue\<close> (28), \<^verbatim>\<open>green\<close> (29), \<^verbatim>\<open>red\<close> (47).
\<close>

definition LED_members :: "LED list" where
  "LED_members = sort_key LED_value [red, green, blue, all]"

subsection \<open>Python values and exceptions\<close>

text \<open>
  The arguments the binding does not type: a mode, an LED or a payload may be any
  Python object.
\<close>

datatype pyobj = PyNone | PyInt int | PyStr string | PyMode Mode | PyLED LED

text \<open>
  \<^verbatim>\<open>x in Mode\<close> and \<^verbatim>\<open>x in LED\<close>: membership in an \<^verbatim>\<open>Enum\<close> class holds for its
  members only.
\<close>

fun in_Mode :: "pyobj \<Rightarrow> bool" where
  "in_Mode (PyMode m) = True"
| "in_Mode x = False"

fun in_LED :: "pyobj \<Rightarrow> bool" where
  "in_LED (PyLED l) = True"
| "in_LED x = False"

text \<open>
  The exceptions, each with the arguments it is raised with. \<open>DeviceError\<close> is raised
  with a message alone or with a message and an error code.
\<close>

datatype pyerr =
    ValueError string
  | OverflowError
  | AttributeError
  | IndexError
  | UnicodeDecodeError
  | SessionError string int
  | DeviceError string "int option"
  | IOError int string
  | RuntimeError string
  | SystemError string

text \<open>
  An argument declared \<^verbatim>\<open>int\<close> in a \<^verbatim>\<open>def\<close> is converted to a C \<^verbatim>\<open>int\<close> on entry;
  a Python integer that does not fit raises \<^verbatim>\<open>OverflowError\<close>.
\<close>

definition to_c_int :: "int \<Rightarrow> pyerr + int" where
  "to_c_int i = (if - 2147483648 \<le> i \<and> i \<le> 2147483647 then Inr i else Inl OverflowError)"

subsection \<open>Decimal text of an integer\<close>

function str_nat :: "nat \<Rightarrow> string" where
  "str_nat n =
     (if n < 10 then [char_of (48 + n)]
      else str_nat (n div 10) @ [char_of (48 + n mod 10)])"
  by pat_completeness auto
termination
  by (relation "measure (\<lambda>n. n)") auto

declare str_nat.simps [simp del]

definition str_int :: "int \<Rightarrow> string" where
  "str_int i = (if i < 0 then CHR ''-'' # str_nat (nat (- i)) else str_nat (nat i))"

text \<open>
  \<^verbatim>\<open>str(data).encode()\<close> in Python 2: the text of the object, then an ASCII round trip
  that fails on a byte above 127.
\<close>

fun py_str :: "pyobj \<Rightarrow> string" where
  "py_str PyNone = ''None''"
| "py_str (PyInt i) = str_int i"
| "py_str (PyStr s) = s"
| "py_str (PyMode HI_Z) = ''Mode.HI_Z''"
| "py_str (PyMode SVMI) = ''Mode.SVMI''"
| "py_str (PyMode SIMV) = ''Mode.SIMV''"
| "py_str (PyLED red) = ''LED.red''"
| "py_str (PyLED green) = ''LED.green''"
| "py_str (PyLED blue) = ''LED.blue''"
| "py_str (PyLED all) = ''LED.all''"

definition py_encode :: "string \<Rightarrow> pyerr + string" where
  "py_encode s =
     (if list_all (\<lambda>c. (of_char c :: nat) < 128) s then Inr s else Inl UnicodeDecodeError)"

text \<open>The attribute \<^verbatim>\<open>.value\<close>, which only the members of an enumeration have.\<close>

fun py_value :: "pyobj \<Rightarrow> pyerr + int" where
  "py_value (PyMode m) = Inr (Mode_value m)"
| "py_value (PyLED l) = Inr (LED_value l)"
| "py_value x = Inl AttributeError"

text \<open>
  \<^verbatim>\<open>Mode(mode)\<close>: the member with that value, or \<^verbatim>\<open>ValueError\<close>.
\<close>

definition Mode_of_value :: "int \<Rightarrow> pyerr + Mode" where
  "Mode_of_value i =
     (if i = 0 then Inr HI_Z
      else if i = 1 then Inr SVMI
      else if i = 2 then Inr SIMV
      else Inl (ValueError (str_int i @ '' is not a valid Mode'')))"

text \<open>
  Indexing a pair, as \<^verbatim>\<open>x[self.chan]\<close> does: negative indices count from the end,
  anything else out of range raises \<^verbatim>\<open>IndexError\<close>.
\<close>

definition pair_index :: "'a \<times> 'a \<Rightarrow> int \<Rightarrow> pyerr + 'a" where
  "pair_index x i =
     (if i = 0 \<or> i = - 2 then Inr (fst x)
      else if i = 1 \<or> i = - 1 then Inr (snd x)
      else Inl IndexError)"

text \<open>The comprehension \<^verbatim>\<open>[x[i] for x in xs]\<close>: the first failing index aborts it.\<close>

fun index_each :: "int \<Rightarrow> ('a \<times> 'a) list \<Rightarrow> pyerr + 'a list" where
  "index_each i [] = Inr []"
| "index_each i (x # xs) =
     (case pair_index x i of
        Inl e \<Rightarrow> Inl e
      | Inr y \<Rightarrow> (case index_each i xs of Inl e \<Rightarrow> Inl e | Inr ys \<Rightarrow> Inr (y # ys)))"

subsection \<open>The C++ library behind the binding\<close>

text \<open>
  The binding calls methods of \<^verbatim>\<open>smu::Session\<close> and \<^verbatim>\<open>smu::Device\<close>. They are
  taken as parameters: a record of functions over a state \<open>'b\<close> of the library and the
  hardware. A C++ sample is \<^verbatim>\<open>array[float, four]\<close>; the floats are kept abstract
  (\<open>'f\<close>), since the binding only moves them.

  \<^item> The session methods and the mode methods return an \<^verbatim>\<open>int\<close> error code.
  \<^item> \<open>device_read\<close> may never return (\<open>None\<close>); otherwise it leaves a buffer and
    either returns a count or throws, the C++ exception arriving as a Python one.
  \<^item> \<open>device_write\<close> returns an error code or throws.
  \<^item> \<open>device_ctrl_transfer\<close> is handed the bytes of \<^verbatim>\<open>data\<close> as a buffer; it returns
    a status and the bytes the buffer holds afterwards.

  The declarations of these methods (\<^verbatim>\<open>cpp_libsmu.pxd\<close>) are not part of the binding's
  source: the methods receive the Python values as they are passed, and the conversion
  of a value to the C type of a parameter is left to them.
\<close>

type_synonym 'f sample4 = "'f \<times> 'f \<times> 'f \<times> 'f"

datatype 'a outcome = Returns 'a | Throws pyerr

record ('b, 'f) cpp_libsmu =
  session_configure :: "int \<Rightarrow> 'b \<Rightarrow> int \<times> 'b"
  session_run :: "int \<Rightarrow> 'b \<Rightarrow> int \<times> 'b"
  session_start :: "int \<Rightarrow> 'b \<Rightarrow> int \<times> 'b"
  session_end :: "'b \<Rightarrow> int \<times> 'b"
  device_read :: "int \<Rightarrow> int \<Rightarrow> 'b \<Rightarrow> (('f sample4 list \<times> int outcome) \<times> 'b) option"
  device_write :: "'f list \<Rightarrow> int \<Rightarrow> bool \<Rightarrow> 'b \<Rightarrow> int outcome \<times> 'b"
  device_set_mode :: "int \<Rightarrow> int \<Rightarrow> 'b \<Rightarrow> int \<times> 'b"
  device_get_mode :: "int \<Rightarrow> 'b \<Rightarrow> int \<times> 'b"
  device_ctrl_transfer ::
    "int \<Rightarrow> int \<Rightarrow> int \<Rightarrow> int \<Rightarrow> string \<Rightarrow> int \<Rightarrow> int \<Rightarrow> 'b \<Rightarrow> (int \<times> string) \<times> 'b"

text \<open>
  The world the binding runs in: the state of the library, and the calls made into it
  so far, oldest first, each with the arguments it was given.
\<close>

datatype 'f cpp_call =
    Call_session_configure int
  | Call_session_run int
  | Call_session_start int
  | Call_session_end
  | Call_session_delete
  | Call_device_read int int
  | Call_device_write "'f list" int bool
  | Call_device_set_mode int int
  | Call_device_get_mode int
  | Call_device_ctrl_transfer int int int int string int int

record ('b, 'f) world =
  cpp :: 'b
  calls :: "'f cpp_call list"

definition call :: "'f cpp_call \<Rightarrow> ('b \<Rightarrow> 'r \<times> 'b) \<Rightarrow> ('b, 'f) world \<Rightarrow> 'r \<times> ('b, 'f) world" where
  "call c f w = (case f (cpp w) of (r, b) \<Rightarrow> (r, \<lparr>cpp = b, calls = calls w @ [c]\<rparr>))"

definition call_blocking ::
  "'f cpp_call \<Rightarrow> ('b \<Rightarrow> ('r \<times> 'b) option) \<Rightarrow> ('b, 'f) world \<Rightarrow> ('r \<times> ('b, 'f) world) option" where
  "call_blocking c f w =
     (case f (cpp w) of
        None \<Rightarrow> None
      | Some (r, b) \<Rightarrow> Some (r, \<lparr>cpp = b, calls = calls w @ [c]\<rparr>))"

subsection \<open>Session\<close>

text \<open>
  \<^verbatim>\<open>Session.configure\<close>, \<^verbatim>\<open>Session.run\<close> and \<^verbatim>\<open>Session.start\<close>: the typed
  argument is converted, checked, and only then handed to the library.
\<close>

definition Session_configure ::
  "('b, 'f) cpp_libsmu \<Rightarrow> int \<Rightarrow> ('b, 'f) world \<Rightarrow> (pyerr + unit) \<times> ('b, 'f) world" where
  "Session_configure lib sample_rate w =
     (case to_c_int sample_rate of
        Inl e \<Rightarrow> (Inl e, w)
      | Inr rate \<Rightarrow>
          if rate < 0 then (Inl (ValueError (''invalid sample rate: '' @ str_int rate)), w)
          else
            (case call (Call_session_configure rate) (session_configure lib rate) w of
               (errcode, w') \<Rightarrow>
                 if errcode \<noteq> 0 then (Inl (SessionError ''failed configuring device'' errcode), w')
                 else (Inr (), w')))"

definition Session_run ::
  "('b, 'f) cpp_libsmu \<Rightarrow> int \<Rightarrow> ('b, 'f) world \<Rightarrow> (pyerr + unit) \<times> ('b, 'f) world" where
  "Session_run lib samples w =
     (case to_c_int samples of
        Inl e \<Rightarrow> (Inl e, w)
      | Inr n \<Rightarrow>
          if n < 0 then (Inl (ValueError (''invalid number of samples: '' @ str_int n)), w)
          else
            (case call (Call_session_run n) (session_run lib n) w of
               (errcode, w') \<Rightarrow>
                 if errcode \<noteq> 0 then (Inl (SessionError ''failed running session stream'' errcode), w')
                 else (Inr (), w')))"

definition Session_start ::
  "('b, 'f) cpp_libsmu \<Rightarrow> int \<Rightarrow> ('b, 'f) world \<Rightarrow> (pyerr + unit) \<times> ('b, 'f) world" where
  "Session_start lib samples w =
     (case to_c_int samples of
        Inl e \<Rightarrow> (Inl e, w)
      | Inr n \<Rightarrow>
          if n < 0 then (Inl (ValueError (''invalid number of samples: '' @ str_int n)), w)
          else
            (case call (Call_session_start n) (session_start lib n) w of
               (errcode, w') \<Rightarrow>
                 if errcode \<noteq> 0 then (Inl (SessionError ''failed starting session stream'' errcode), w')
                 else (Inr (), w')))"

definition Session_end ::
  "('b, 'f) cpp_libsmu \<Rightarrow> ('b, 'f) world \<Rightarrow> (pyerr + unit) \<times> ('b, 'f) world" where
  "Session_end lib w =
     (case call Call_session_end (session_end lib) w of
        (errcode, w') \<Rightarrow>
          if errcode \<noteq> 0 then (Inl (SessionError ''failed ending session stream'' errcode), w')
          else (Inr (), w'))"

text \<open>
  \<^verbatim>\<open>Session.__dealloc__\<close>. The body of the \<^verbatim>\<open>try\<close> calls the C++ \<^verbatim>\<open>end()\<close> and drops
  the code it returns; the handler passes on \<^verbatim>\<open>SessionError\<close>; then the C++ object is
  deleted.
\<close>

definition dealloc_try ::
  "('b, 'f) cpp_libsmu \<Rightarrow> ('b, 'f) world \<Rightarrow> (pyerr + unit) \<times> ('b, 'f) world" where
  "dealloc_try lib w =
     (case call Call_session_end (session_end lib) w of (errcode, w') \<Rightarrow> (Inr (), w'))"

fun except_SessionError_pass :: "pyerr + unit \<Rightarrow> pyerr + unit" where
  "except_SessionError_pass (Inl (SessionError msg code)) = Inr ()"
| "except_SessionError_pass r = r"

definition Session_dealloc ::
  "('b, 'f) cpp_libsmu \<Rightarrow> ('b, 'f) world \<Rightarrow> (pyerr + unit) \<times> ('b, 'f) world" where
  "Session_dealloc lib w =
     (case dealloc_try lib w of
        (r, w') \<Rightarrow>
          (case except_SessionError_pass r of
             Inl e \<Rightarrow> (Inl e, w')
           | Inr u \<Rightarrow> (Inr (), w'\<lparr>calls := calls w' @ [Call_session_delete]\<rparr>)))"

subsection \<open>Device\<close>

text \<open>
  A sample as the binding returns it: \<^verbatim>\<open>((x[0], x[1]), (x[2], x[3]))\<close>, channel A's
  pair and channel B's.
\<close>

type_synonym 'f sample = "('f \<times> 'f) \<times> ('f \<times> 'f)"

fun regroup :: "'f sample4 \<Rightarrow> 'f sample" where
  "regroup (a, b, c, d) = ((a, b), (c, d))"

text \<open>
  \<^verbatim>\<open>Device.read\<close>. \<^verbatim>\<open>ret\<close> starts at 0 and keeps that value when the call throws.
  A \<^verbatim>\<open>SystemError\<close> becomes a \<^verbatim>\<open>DeviceError\<close>; a \<^verbatim>\<open>RuntimeError\<close> whose message
  starts with \<^verbatim>\<open>'dropped '\<close> is ignored, any other is raised again.
\<close>

definition read_result :: "int \<Rightarrow> 'f sample4 list \<Rightarrow> pyerr + 'f sample list" where
  "read_result ret buf =
     (if ret < 0 then Inl (DeviceError ''failed reading from device'' (Some ret))
      else Inr (map regroup buf))"

fun read_outcome :: "'f sample4 list \<times> int outcome \<Rightarrow> pyerr + 'f sample list" where
  "read_outcome (buf, Returns ret) = read_result ret buf"
| "read_outcome (buf, Throws (SystemError msg)) = Inl (DeviceError msg None)"
| "read_outcome (buf, Throws (RuntimeError msg)) =
     (if \<not> prefix ''dropped '' msg then Inl (RuntimeError msg) else read_result 0 buf)"
| "read_outcome (buf, Throws e) = Inl e"

definition Device_read ::
  "('b, 'f) cpp_libsmu \<Rightarrow> int \<Rightarrow> int \<Rightarrow> ('b, 'f) world
     \<Rightarrow> ((pyerr + 'f sample list) \<times> ('b, 'f) world) option" where
  "Device_read lib num_samples timeout w =
     (case call_blocking (Call_device_read num_samples timeout)
             (device_read lib num_samples timeout) w of
        None \<Rightarrow> None
      | Some (out, w') \<Rightarrow> Some (read_outcome out, w'))"

definition Device_get_samples ::
  "('b, 'f) cpp_libsmu \<Rightarrow> int \<Rightarrow> ('b, 'f) world
     \<Rightarrow> ((pyerr + 'f sample list) \<times> ('b, 'f) world) option" where
  "Device_get_samples lib num_samples w = Device_read lib num_samples (- 1) w"

text \<open>
  \<^verbatim>\<open>Device.write\<close>. \<^verbatim>\<open>data\<close> is the vector of floats the argument converts to.
  \<^verbatim>\<open>errcode\<close> is a C local with no initial value: when the call throws and the
  exception is ignored, the test \<^verbatim>\<open>errcode < 0\<close> reads whatever the variable holds,
  here the parameter \<open>errcode0\<close>.
\<close>

definition write_result :: "int \<Rightarrow> pyerr + unit" where
  "write_result errcode =
     (if errcode < 0 then Inl (DeviceError ''failed writing to device'' (Some errcode))
      else Inr ())"

fun write_outcome :: "int \<Rightarrow> int outcome \<Rightarrow> pyerr + unit" where
  "write_outcome errcode0 (Returns errcode) = write_result errcode"
| "write_outcome errcode0 (Throws (SystemError msg)) = Inl (DeviceError msg None)"
| "write_outcome errcode0 (Throws (RuntimeError msg)) =
     (if \<not> prefix ''dropped '' msg then Inl (RuntimeError msg) else write_result errcode0)"
| "write_outcome errcode0 (Throws e) = Inl e"

definition Device_write ::
  "('b, 'f) cpp_libsmu \<Rightarrow> int \<Rightarrow> 'f list \<Rightarrow> int \<Rightarrow> bool \<Rightarrow> ('b, 'f) world
     \<Rightarrow> (pyerr + unit) \<times> ('b, 'f) world" where
  "Device_write lib errcode0 data channel cyclic w =
     (case call (Call_device_write data channel cyclic) (device_write lib data channel cyclic) w of
        (out, w') \<Rightarrow> (write_outcome errcode0 out, w'))"

text \<open>
  \<^verbatim>\<open>Device.ctrl_transfer\<close>. The test \<^verbatim>\<open>bm_request_type & 0x80 == 0x80\<close> picks the
  device-to-host direction. The library writes what it receives into the buffer of
  \<^verbatim>\<open>data\<close>, so \<^verbatim>\<open>map(ord, data)\<close> lists the bytes the buffer holds after the call.
  The method returns a list of byte values or a count.
\<close>

datatype ctrl_result = Transferred int | Received "int list"

text \<open>
  The \<^verbatim>\<open>if\<close> before the call: the buffer and the length that are handed to the
  library, from the encoded \<^verbatim>\<open>data\<close> and the argument \<^verbatim>\<open>wLength\<close>.
\<close>

definition ctrl_buffer :: "int \<Rightarrow> string \<Rightarrow> int \<Rightarrow> string" where
  "ctrl_buffer bm_request_type data wLength =
     (if bm_request_type AND 0x80 = 0x80
      then (if data = ''0'' then replicate (nat wLength) (CHR 0x00) else data)
      else data)"

definition ctrl_length :: "int \<Rightarrow> int \<Rightarrow> int" where
  "ctrl_length bm_request_type wLength =
     (if bm_request_type AND 0x80 = 0x80 then wLength else 0)"

definition Device_ctrl_transfer ::
  "('b, 'f) cpp_libsmu \<Rightarrow> int \<Rightarrow> int \<Rightarrow> int \<Rightarrow> int \<Rightarrow> pyobj \<Rightarrow> int \<Rightarrow> int \<Rightarrow> ('b, 'f) world
     \<Rightarrow> (pyerr + ctrl_result) \<times> ('b, 'f) world" where
  "Device_ctrl_transfer lib bm_request_type b_request wValue wIndex data wLength timeout w =
     (case py_encode (py_str data) of
        Inl e \<Rightarrow> (Inl e, w)
      | Inr data1 \<Rightarrow>
          (case call
                  (Call_device_ctrl_transfer bm_request_type b_request wValue wIndex
                     (ctrl_buffer bm_request_type data1 wLength)
                     (ctrl_length bm_request_type wLength) timeout)
                  (device_ctrl_transfer lib bm_request_type b_request wValue wIndex
                     (ctrl_buffer bm_request_type data1 wLength)
                     (ctrl_length bm_request_type wLength) timeout) w of
             ((r, data3), w') \<Rightarrow>
               if r < 0 then (Inl (IOError (abs r) ''USB control transfer failed''), w')
               else if bm_request_type AND 0x80 = 0x80
                 then (Inr (Received (map of_char data3)), w')
                 else (Inr (Transferred r), w')))"

text \<open>
  \<^verbatim>\<open>Device.set_led\<close>. Both branches make the call
  \<^verbatim>\<open>self.ctrl_transfer(0x40, req, value, 0, 0, 0, 100)\<close>, here \<open>led_transfer\<close>. The loop
  over \<^verbatim>\<open>(l for l in LED if l != LED.all)\<close> stops at the first transfer that raises.
\<close>

definition led_transfer ::
  "('b, 'f) cpp_libsmu \<Rightarrow> int \<Rightarrow> int \<Rightarrow> ('b, 'f) world \<Rightarrow> (pyerr + ctrl_result) \<times> ('b, 'f) world" where
  "led_transfer lib req v w = Device_ctrl_transfer lib 0x40 req v 0 (PyInt 0) 0 100 w"

fun set_led_each ::
  "('b, 'f) cpp_libsmu \<Rightarrow> int \<Rightarrow> LED list \<Rightarrow> ('b, 'f) world \<Rightarrow> (pyerr + unit) \<times> ('b, 'f) world" where
  "set_led_each lib req [] w = (Inr (), w)"
| "set_led_each lib req (x # xs) w =
     (case led_transfer lib req (LED_value x) w of
        (Inl e, w') \<Rightarrow> (Inl e, w')
      | (Inr r, w') \<Rightarrow> set_led_each lib req xs w')"

definition Device_set_led ::
  "('b, 'f) cpp_libsmu \<Rightarrow> pyobj \<Rightarrow> bool \<Rightarrow> ('b, 'f) world \<Rightarrow> (pyerr + unit) \<times> ('b, 'f) world" where
  "Device_set_led lib led status w =
     (if \<not> in_LED led then (Inl (ValueError (''invalid LED: '' @ py_str led)), w)
      else
        (let req = (if status then 0x50 else 0x51) in
           if led = PyLED all then set_led_each lib req (filter (\<lambda>l. l \<noteq> all) LED_members) w
           else
             (case py_value led of
                Inl e \<Rightarrow> (Inl e, w)
              | Inr v \<Rightarrow>
                  (case led_transfer lib req v w of
                     (Inl e, w') \<Rightarrow> (Inl e, w')
                   | (Inr r, w') \<Rightarrow> (Inr (), w')))))"

subsection \<open>Channel\<close>

text \<open>
  A channel holds its device and the index \<^verbatim>\<open>chan\<close>; \<^verbatim>\<open>Device.__init__\<close> makes
  channel A with index 0 and channel B with index 1.
\<close>

definition Channel_mode_get ::
  "('b, 'f) cpp_libsmu \<Rightarrow> int \<Rightarrow> ('b, 'f) world \<Rightarrow> (pyerr + Mode) \<times> ('b, 'f) world" where
  "Channel_mode_get lib chan w =
     (case call (Call_device_get_mode chan) (device_get_mode lib chan) w of
        (mode, w') \<Rightarrow> (Mode_of_value mode, w'))"

definition Channel_mode_set ::
  "('b, 'f) cpp_libsmu \<Rightarrow> int \<Rightarrow> pyobj \<Rightarrow> ('b, 'f) world \<Rightarrow> (pyerr + unit) \<times> ('b, 'f) world" where
  "Channel_mode_set lib chan mode w =
     (if \<not> in_Mode mode then (Inl (ValueError (''invalid mode: '' @ py_str mode)), w)
      else
        (case py_value mode of
           Inl e \<Rightarrow> (Inl e, w)
         | Inr v \<Rightarrow>
             (case call (Call_device_set_mode chan v) (device_set_mode lib chan v) w of
                (errcode, w') \<Rightarrow>
                  if errcode \<noteq> 0
                  then (Inl (DeviceError (''failed setting mode '' @ py_str mode @ '': '')
                               (Some errcode)), w')
                  else (Inr (), w'))))"

definition Channel_read ::
  "('b, 'f) cpp_libsmu \<Rightarrow> int \<Rightarrow> int \<Rightarrow> int \<Rightarrow> ('b, 'f) world
     \<Rightarrow> ((pyerr + ('f \<times> 'f) list) \<times> ('b, 'f) world) option" where
  "Channel_read lib chan num_samples timeout w =
     (case Device_read lib num_samples timeout w of
        None \<Rightarrow> None
      | Some (Inl e, w') \<Rightarrow> Some (Inl e, w')
      | Some (Inr xs, w') \<Rightarrow> Some (index_each chan xs, w'))"

definition Channel_write ::
  "('b, 'f) cpp_libsmu \<Rightarrow> int \<Rightarrow> int \<Rightarrow> 'f list \<Rightarrow> bool \<Rightarrow> ('b, 'f) world
     \<Rightarrow> (pyerr + unit) \<times> ('b, 'f) world" where
  "Channel_write lib errcode0 chan data cyclic w =
     (case Device_write lib errcode0 data chan cyclic w of
        (Inl e, w') \<Rightarrow> (Inl e, w')
      | (Inr u, w') \<Rightarrow> (Inr (), w'))"

definition Channel_get_samples ::
  "('b, 'f) cpp_libsmu \<Rightarrow> int \<Rightarrow> int \<Rightarrow> ('b, 'f) world
     \<Rightarrow> ((pyerr + ('f \<times> 'f) list) \<times> ('b, 'f) world) option" where
  "Channel_get_samples lib chan num_samples w =
     (case Device_get_samples lib num_samples w of
        None \<Rightarrow> None
      | Some (Inl e, w') \<Rightarrow> Some (Inl e, w')
      | Some (Inr xs, w') \<Rightarrow> Some (index_each chan xs, w'))"

subsection \<open>The device of the specification\<close>

text \<open>
  Modelled from the spec: the C++ \<^verbatim>\<open>smu::Device\<close> (its \<^verbatim>\<open>read\<close>, \<^verbatim>\<open>set_mode\<close> and
  \<^verbatim>\<open>get_mode\<close>), whose source is not among the files of the binding. The device has a
  mode for each channel, a streaming state, an input queue of samples in acquisition
  order and a count of the samples dropped since the previous read. What its transfer
  loop will deliver while a caller waits is a list of events: a sample, the
  cancellation (or end) of the session, or a transport failure.
\<close>

datatype 'f event = Sample "'f sample4" | Cancelled | Failure nat

record 'f smu_device =
  running :: bool
  modes :: "int \<Rightarrow> int"
  in_queue :: "'f sample4 list"
  dropped :: nat
  pending :: "'f event list"

text \<open>
  Modelled from the spec: the wait of \<^verbatim>\<open>read\<close> with \<^verbatim>\<open>timeout == -1\<close>, which "blocks
  until exactly \<^verbatim>\<open>num_samples\<close> are available or the session is cancelled/ended".
  \<open>wait_samples k acc es\<close> still needs \<open>k\<close> samples; it returns the samples gathered,
  how the wait ended and the events left, or \<open>None\<close> when the events run out first
  (the caller stays blocked).
\<close>

datatype wait_end = Complete | Stopped | Failed nat

fun wait_samples ::
  "nat \<Rightarrow> 'f sample4 list \<Rightarrow> 'f event list
     \<Rightarrow> ('f sample4 list \<times> wait_end \<times> 'f event list) option" where
  "wait_samples 0 acc es = Some (acc, Complete, es)"
| "wait_samples (Suc k) acc [] = None"
| "wait_samples (Suc k) acc (Sample x # es) = wait_samples k (acc @ [x]) es"
| "wait_samples (Suc k) acc (Cancelled # es) = Some (acc, Stopped, es)"
| "wait_samples (Suc k) acc (Failure c # es) = Some (acc, Failed c, es)"

text \<open>
  Modelled from the spec: how \<^verbatim>\<open>read\<close> ends. A transport failure is a negative
  return value ("fails with DeviceIOError on transport failure"); dropped samples are
  reported, not fatally, by an exception whose text starts with \<^verbatim>\<open>dropped\<close> (the
  "overflow-as-exception" of the design notes), and the count starts again; otherwise
  the number of samples read is returned. A cancellation stops the streaming.
\<close>

definition smu_read_end :: "'f smu_device \<Rightarrow> 'f sample4 list \<Rightarrow> 'f sample4 list \<Rightarrow> wait_end
    \<Rightarrow> 'f event list \<Rightarrow> ('f sample4 list \<times> int outcome) \<times> 'f smu_device" where
  "smu_read_end d buf rest e es =
     (case e of
        Failed c \<Rightarrow> ((buf, Returns (- int (Suc c))), d\<lparr>in_queue := rest, pending := es\<rparr>)
      | _ \<Rightarrow>
          (let d' = d\<lparr>running := (if e = Stopped then False else running d),
                       in_queue := rest, dropped := 0, pending := es\<rparr>
           in if 0 < dropped d
              then ((buf, Throws (RuntimeError (''dropped '' @ str_nat (dropped d) @ '' samples''))), d')
              else ((buf, Returns (int (length buf))), d')))"

text \<open>
  Modelled from the spec: \<^verbatim>\<open>read(num_samples, timeout)\<close>, which "drains up to
  \<^verbatim>\<open>num_samples\<close> samples from the device's input queue". With \<^verbatim>\<open>timeout == -1\<close> it
  waits for the rest; with \<^verbatim>\<open>timeout == 0\<close> it returns what is there. A positive
  timeout bounds the wait in real time, which the model does not have: it is treated
  as 0.
\<close>

definition smu_read ::
  "int \<Rightarrow> int \<Rightarrow> 'f smu_device \<Rightarrow> (('f sample4 list \<times> int outcome) \<times> 'f smu_device) option" where
  "smu_read num_samples timeout d =
     (let n = nat num_samples;
          avail = take n (in_queue d);
          rest = drop n (in_queue d)
      in if timeout = - 1
         then (case wait_samples (n - length avail) avail (pending d) of
                 None \<Rightarrow> None
               | Some (buf, e, es) \<Rightarrow> Some (smu_read_end d buf rest e es))
         else Some (smu_read_end d avail rest Complete (pending d)))"

text \<open>
  Modelled from the spec: \<^verbatim>\<open>set_mode\<close> "fails with an InvalidState error if the
  session/device is currently RUNNING" and otherwise records the mode, which
  \<^verbatim>\<open>get_mode\<close> returns. The spec names the error and no number: \<open>InvalidState\<close> is
  the code the C++ method returns for it.
\<close>

definition smu_set_mode :: "int \<Rightarrow> int \<Rightarrow> int \<Rightarrow> 'f smu_device \<Rightarrow> int \<times> 'f smu_device" where
  "smu_set_mode InvalidState channel mode d =
     (if running d then (InvalidState, d)
      else (0, d\<lparr>modes := (modes d)(channel := mode)\<rparr>))"

definition smu_get_mode :: "int \<Rightarrow> 'f smu_device \<Rightarrow> int \<times> 'f smu_device" where
  "smu_get_mode channel d = (modes d channel, d)"

subsection \<open>Libraries to run the binding on\<close>

text \<open>
  A library whose methods leave the state alone and answer with fixed values: an error
  code for the session and mode methods, what \<open>device_read\<close> and \<open>device_write\<close> do,
  the status of a control transfer and what it leaves in the buffer.
\<close>

definition const_lib ::
  "int \<Rightarrow> ('f sample4 list \<times> int outcome) option \<Rightarrow> int outcome \<Rightarrow> int \<Rightarrow> (string \<Rightarrow> string)
     \<Rightarrow> ('b, 'f) cpp_libsmu" where
  "const_lib errcode rd wr r fill =
     \<lparr>session_configure = (\<lambda>rate b. (errcode, b)),
      session_run = (\<lambda>n b. (errcode, b)),
      session_start = (\<lambda>n b. (errcode, b)),
      session_end = (\<lambda>b. (errcode, b)),
      device_read = (\<lambda>n t b. (case rd of None \<Rightarrow> None | Some out \<Rightarrow> Some (out, b))),
      device_write = (\<lambda>data channel cyclic b. (wr, b)),
      device_set_mode = (\<lambda>channel mode b. (errcode, b)),
      device_get_mode = (\<lambda>channel b. (0, b)),
      device_ctrl_transfer = (\<lambda>bm req v i data len t b. ((r, fill data), b))\<rparr>"

text \<open>
  The library whose device is the device of the specification; its other methods
  succeed and leave the state alone.
\<close>

definition smu_lib :: "int \<Rightarrow> ('f smu_device, 'f) cpp_libsmu" where
  "smu_lib InvalidState =
     (const_lib 0 None (Returns 0) 0 (\<lambda>data. data))
       \<lparr>device_read := smu_read,
        device_set_mode := smu_set_mode InvalidState,
        device_get_mode := smu_get_mode\<rparr>"

text \<open>The number of samples at the head of the events, before anything else happens.\<close>

fun samples_ahead :: "'f event list \<Rightarrow> nat" where
  "samples_ahead (Sample x # es) = Suc (samples_ahead es)"
| "samples_ahead es = 0"

text \<open>A world in which nothing has been called yet, for the constant libraries.\<close>

definition world0 :: "(unit, int) world" where
  "world0 = \<lparr>cpp = (), calls = []\<rparr>"

text \<open>
  Constant libraries: one where every call succeeds, one whose \<open>device_read\<close> delivers
  one sample, and one whose \<open>device_read\<close> and \<open>device_write\<close> signal dropped samples.
\<close>

definition lib0 :: "(unit, int) cpp_libsmu" where
  "lib0 = const_lib 0 None (Returns 0) 0 (\<lambda>data. data)"

definition lib_read1 :: "(unit, int) cpp_libsmu" where
  "lib_read1 = const_lib 0 (Some ([(1, 2, 3, 4)], Returns 1)) (Returns 0) 0 (\<lambda>data. data)"

definition lib_dropped :: "(unit, int) cpp_libsmu" where
  "lib_dropped =
     const_lib 0 (Some ([(1, 2, 3, 4)], Throws (RuntimeError ''dropped 5 samples'')))
       (Throws (RuntimeError ''dropped 5 samples'')) 0 (\<lambda>data. data)"

text \<open>
  A library that counts the control transfers and fails the third with status -1.
\<close>

definition lib_fail_third :: "(nat, int) cpp_libsmu" where
  "lib_fail_third =
     (const_lib 0 None (Returns 0) 0 (\<lambda>data. data))
       \<lparr>device_ctrl_transfer :=
          (\<lambda>bm req v i buffer len t b. ((if b = 2 then - 1 else 0, buffer), Suc b))\<rparr>"

text \<open>The call into the library that \<open>led_transfer lib req v\<close> is expected to make.\<close>

definition led_call :: "int \<Rightarrow> int \<Rightarrow> 'f cpp_call" where
  "led_call req v = Call_device_ctrl_transfer 0x40 req v 0 ''0'' 0 100"

text \<open>
  Two worlds on the device of the specification, idle and running: channel modes
  \<^verbatim>\<open>HI_Z\<close>, one sample queued, three dropped since the previous read, and two samples
  then a cancellation to come.
\<close>

definition smu_idle :: "(int smu_device, int) world" where
  "smu_idle =
     \<lparr>cpp = \<lparr>running = False, modes = (\<lambda>channel. 0), in_queue = [(1, 2, 3, 4)], dropped = 3,
              pending = [Sample (5, 6, 7, 8), Sample (9, 10, 11, 12), Cancelled]\<rparr>,
      calls = []\<rparr>"

definition smu_streaming :: "(int smu_device, int) world" where
  "smu_streaming = smu_idle\<lparr>cpp := (cpp smu_idle)\<lparr>running := True\<rparr>\<rparr>"

section \<open>Properties\<close>

subsection \<open>Auxiliary facts\<close>

lemma str_int_0: "str_int 0 = ''0''"
  by code_simp

lemma encode_str_0: "py_encode (str_int 0) = Inr ''0''"
  by code_simp

lemma calls_world0: "calls world0 = []"
  by (simp add: world0_def)

lemma const_lib_simps:
  "session_configure (const_lib errcode rd wr r fill) rate b = (errcode, b)"
  "session_run (const_lib errcode rd wr r fill) k b = (errcode, b)"
  "session_start (const_lib errcode rd wr r fill) k b = (errcode, b)"
  "session_end (const_lib errcode rd wr r fill) b = (errcode, b)"
  "device_read (const_lib errcode rd wr r fill) n t b =
     (case rd of None \<Rightarrow> None | Some out \<Rightarrow> Some (out, b))"
  "device_write (const_lib errcode rd wr r fill) data channel cyclic b = (wr, b)"
  "device_set_mode (const_lib errcode rd wr r fill) channel mode b = (errcode, b)"
  "device_get_mode (const_lib errcode rd wr r fill) channel b = (0, b)"
  "device_ctrl_transfer (const_lib errcode rd wr r fill) bm req v i buffer len t b
     = ((r, fill buffer), b)"
  by (simp_all add: const_lib_def)

lemma to_c_int_neg:
  "i < 0 \<Longrightarrow> to_c_int i = (if - 2147483648 \<le> i then Inr i else Inl OverflowError)"
  by (simp add: to_c_int_def)

lemma index_each_01:
  "c = 0 \<or> c = 1 \<Longrightarrow> index_each c xs = Inr (map (if c = 0 then fst else snd) xs)"
  by (induction xs) (auto simp: pair_index_def)

subsection \<open>Arguments are checked before the library is called\<close>

text \<open>
  Claim C4, as amended. An invalid argument is refused before any call into the
  library, and the world is left as it was: a negative \<^verbatim>\<open>sample_rate\<close> for
  \<^verbatim>\<open>Session.configure\<close> and a negative \<^verbatim>\<open>samples\<close> for \<^verbatim>\<open>Session.run\<close> and
  \<^verbatim>\<open>Session.start\<close> raise \<^verbatim>\<open>ValueError\<close> when the number fits a C \<^verbatim>\<open>int\<close> and
  \<^verbatim>\<open>OverflowError\<close> when it is below \<open>-2\<^sup>3\<^sup>1\<close>; a mode that is not a member of
  \<^verbatim>\<open>Mode\<close> and an LED that is not a member of \<^verbatim>\<open>LED\<close> raise \<^verbatim>\<open>ValueError\<close>.
\<close>

theorem invalid_arguments_rejected:
  "(sample_rate < 0 \<longrightarrow>
      Session_configure lib sample_rate w =
        (Inl (if - 2147483648 \<le> sample_rate
              then ValueError (''invalid sample rate: '' @ str_int sample_rate)
              else OverflowError), w))
   \<and> (samples < 0 \<longrightarrow>
      Session_run lib samples w =
        (Inl (if - 2147483648 \<le> samples
              then ValueError (''invalid number of samples: '' @ str_int samples)
              else OverflowError), w)
      \<and> Session_start lib samples w =
        (Inl (if - 2147483648 \<le> samples
              then ValueError (''invalid number of samples: '' @ str_int samples)
              else OverflowError), w))
   \<and> (\<not> in_Mode mode \<longrightarrow>
      Channel_mode_set lib chan mode w = (Inl (ValueError (''invalid mode: '' @ py_str mode)), w))
   \<and> (\<not> in_LED led \<longrightarrow>
      Device_set_led lib led status w = (Inl (ValueError (''invalid LED: '' @ py_str led)), w))"
  by (simp add: Session_configure_def Session_run_def Session_start_def Channel_mode_set_def
      Device_set_led_def to_c_int_neg)

theorem invalid_arguments_rejected_witness:
  "Session_configure lib0 (- 1) world0 = (Inl (ValueError ''invalid sample rate: -1''), world0)
   \<and> Session_run lib0 (- 1) world0 = (Inl (ValueError ''invalid number of samples: -1''), world0)
   \<and> Session_start lib0 (- 1) world0 = (Inl (ValueError ''invalid number of samples: -1''), world0)
   \<and> Channel_mode_set lib0 0 (PyInt 7) world0 = (Inl (ValueError ''invalid mode: 7''), world0)
   \<and> Device_set_led lib0 (PyInt 7) True world0 = (Inl (ValueError ''invalid LED: 7''), world0)"
proof -
  have s1: "str_int (- 1) = ''-1''" by code_simp
  have s7: "str_int 7 = ''7''" by code_simp
  show ?thesis
    using invalid_arguments_rejected [of "- 1" lib0 world0 "- 1" "PyInt 7" 0 "PyInt 7" True]
    by (simp add: s1 s7)
qed

text \<open>
  The claim as first stated fails: \<open>-2147483649\<close> is a negative sample rate, and
  \<^verbatim>\<open>Session.configure\<close> raises \<^verbatim>\<open>OverflowError\<close> for it, not \<^verbatim>\<open>ValueError\<close>.
\<close>

theorem configure_overflow_counterexample:
  "(- 2147483649 :: int) < 0
   \<and> Session_configure lib0 (- 2147483649) world0 = (Inl OverflowError, world0)"
  by (simp add: Session_configure_def to_c_int_def)

subsection \<open>Ending a session\<close>

text \<open>
  Claim C7. The teardown \<^verbatim>\<open>Session.__dealloc__\<close> calls the C++ \<^verbatim>\<open>end()\<close>, then deletes
  the session, and raises nothing whatever code \<^verbatim>\<open>end()\<close> returns. The method
  \<^verbatim>\<open>Session.end\<close> makes the same call and raises \<^verbatim>\<open>SessionError\<close> with the code
  exactly when the code is not zero.
\<close>

theorem Session_end_errors:
  "fst (Session_dealloc lib w) = Inr ()
   \<and> calls (snd (Session_dealloc lib w)) = calls w @ [Call_session_end, Call_session_delete]
   \<and> fst (Session_end lib w) =
       (if fst (session_end lib (cpp w)) \<noteq> 0
        then Inl (SessionError ''failed ending session stream'' (fst (session_end lib (cpp w))))
        else Inr ())
   \<and> calls (snd (Session_end lib w)) = calls w @ [Call_session_end]"
  by (auto simp add: Session_dealloc_def dealloc_try_def Session_end_def call_def
      split: prod.splits)

subsection \<open>Reading samples\<close>

text \<open>
  Claim C9. \<^verbatim>\<open>Device.get_samples(n)\<close> is \<^verbatim>\<open>Device.read(n, -1)\<close>: the same result, the
  same exception, the same effect, or neither returns. \<^verbatim>\<open>Channel.get_samples(n)\<close> is
  \<^verbatim>\<open>Channel.read(n, -1)\<close>, and for the channel index 0 or 1 it is
  \<^verbatim>\<open>Device.get_samples(n)\<close> with each sample replaced by channel A's pair (index 0) or
  channel B's pair (index 1), the exceptions and effects being the device's.
\<close>

theorem get_samples_is_read:
  "Device_get_samples lib n w = Device_read lib n (- 1) w
   \<and> Channel_get_samples lib c n w = Channel_read lib c n (- 1) w
   \<and> (c = 0 \<or> c = 1 \<longrightarrow>
        Channel_get_samples lib c n w =
          (case Device_get_samples lib n w of
             None \<Rightarrow> None
           | Some (Inl e, w') \<Rightarrow> Some (Inl e, w')
           | Some (Inr xs, w') \<Rightarrow> Some (Inr (map (if c = 0 then fst else snd) xs), w')))"
  by (auto simp add: Device_get_samples_def Channel_get_samples_def Channel_read_def
      index_each_01 split: option.splits sum.splits prod.splits)

theorem get_samples_is_read_witness:
  "((0::int) = 0 \<or> (0::int) = 1)
   \<and> Device_get_samples lib_read1 1 world0 =
       Some (Inr [((1, 2), (3, 4))], \<lparr>cpp = (), calls = [Call_device_read 1 (- 1)]\<rparr>)
   \<and> Channel_get_samples lib_read1 0 1 world0 =
       Some (Inr [(1, 2)], \<lparr>cpp = (), calls = [Call_device_read 1 (- 1)]\<rparr>)"
proof -
  have c: "(0::int) = 0 \<or> (0::int) = 1" by simp
  have r: "Device_read lib_read1 1 (- 1) world0 =
      Some (Inr [((1, 2), (3, 4))], \<lparr>cpp = (), calls = [Call_device_read 1 (- 1)]\<rparr>)"
    by (simp add: Device_read_def call_blocking_def lib_read1_def const_lib_simps read_result_def
        world0_def)
  note inst = get_samples_is_read [of lib_read1 1 world0 0]
  have g: "Device_get_samples lib_read1 1 world0 =
       Some (Inr [((1, 2), (3, 4))], \<lparr>cpp = (), calls = [Call_device_read 1 (- 1)]\<rparr>)"
    using inst [THEN conjunct1] by (simp add: r)
  have p: "Channel_get_samples lib_read1 0 1 world0 =
       Some (Inr [(1, 2)], \<lparr>cpp = (), calls = [Call_device_read 1 (- 1)]\<rparr>)"
    using inst [THEN conjunct2, THEN conjunct2] c by (simp add: g)
  show ?thesis using c g p by simp
qed

subsection \<open>Control transfers\<close>

text \<open>
  Claim C10. When bit \<^verbatim>\<open>0x80\<close> of \<^verbatim>\<open>bm_request_type\<close> is clear, the one call
  \<^verbatim>\<open>Device.ctrl_transfer\<close> makes into the library carries the length 0 (unless encoding
  \<^verbatim>\<open>data\<close> fails, and then no call is made), and the whole outcome is the same for any
  two values of the argument \<^verbatim>\<open>wLength\<close>.
\<close>

theorem ctrl_transfer_out_wLength:
  assumes "bm_request_type AND 0x80 \<noteq> 0x80"
  shows "(case py_encode (py_str data) of
            Inl e \<Rightarrow>
              Device_ctrl_transfer lib bm_request_type b_request wValue wIndex data wLength
                timeout w = (Inl e, w)
          | Inr d \<Rightarrow>
              calls (snd (Device_ctrl_transfer lib bm_request_type b_request wValue wIndex data
                wLength timeout w))
                = calls w @ [Call_device_ctrl_transfer bm_request_type b_request wValue wIndex
                    d 0 timeout])
         \<and> Device_ctrl_transfer lib bm_request_type b_request wValue wIndex data wLength timeout w
           = Device_ctrl_transfer lib bm_request_type b_request wValue wIndex data wLength'
               timeout w"
  using assms
  by (simp add: Device_ctrl_transfer_def ctrl_buffer_def ctrl_length_def call_def
      split: sum.splits prod.splits)

theorem ctrl_transfer_out_wLength_witness:
  "(0x40::int) AND 0x80 \<noteq> 0x80
   \<and> calls (snd (Device_ctrl_transfer (const_lib 0 None (Returns 0) 3 (\<lambda>d. d))
          0x40 0x50 47 0 (PyInt 0) 64 100 world0))
       = [Call_device_ctrl_transfer 0x40 0x50 47 0 ''0'' 0 100]
   \<and> Device_ctrl_transfer (const_lib 0 None (Returns 0) 3 (\<lambda>d. d))
         0x40 0x50 47 0 (PyInt 0) 64 100 world0
       = Device_ctrl_transfer (const_lib 0 None (Returns 0) 3 (\<lambda>d. d))
           0x40 0x50 47 0 (PyInt 0) 0 100 world0"
proof -
  have bit: "(0x40::int) AND 0x80 \<noteq> 0x80" by simp
  note inst = ctrl_transfer_out_wLength [OF bit, where data = "PyInt 0"
        and lib = "const_lib 0 None (Returns 0) 3 (\<lambda>d. d)" and b_request = "0x50"
        and wValue = 47 and wIndex = 0 and wLength = 64 and timeout = 100 and w = world0
        and wLength' = 0]
  from inst [THEN conjunct1]
  have a: "calls (snd (Device_ctrl_transfer (const_lib 0 None (Returns 0) 3 (\<lambda>d. d))
          0x40 0x50 47 0 (PyInt 0) 64 100 world0))
       = [Call_device_ctrl_transfer 0x40 0x50 47 0 ''0'' 0 100]"
    by (simp add: encode_str_0 calls_world0)
  from inst show ?thesis
    using bit a by blast
qed

text \<open>
  Claim C6, as amended. Once \<^verbatim>\<open>data\<close> is encoded, \<^verbatim>\<open>Device.ctrl_transfer\<close> hands the
  library the buffer and the length. When the library returns a negative status \<open>r\<close>
  the method raises \<^verbatim>\<open>IOError\<close> carrying \<open>- r\<close>, the absolute value of the status.
  Otherwise it returns the status, the number of bytes transferred, when bit \<^verbatim>\<open>0x80\<close>
  of \<^verbatim>\<open>bm_request_type\<close> is clear, and the bytes the buffer holds after the call when
  the bit is set.
\<close>

theorem ctrl_transfer_result:
  assumes "py_encode (py_str data) = Inr d"
    and "device_ctrl_transfer lib bm_request_type b_request wValue wIndex
           (ctrl_buffer bm_request_type d wLength) (ctrl_length bm_request_type wLength)
           timeout (cpp w) = ((r, d'), b)"
  shows "fst (Device_ctrl_transfer lib bm_request_type b_request wValue wIndex data wLength
            timeout w) =
           (if r < 0 then Inl (IOError (- r) ''USB control transfer failed'')
            else if bm_request_type AND 0x80 = 0x80 then Inr (Received (map of_char d'))
            else Inr (Transferred r))"
  using assms
  by (simp add: Device_ctrl_transfer_def call_def)

theorem ctrl_transfer_result_witness:
  "fst (Device_ctrl_transfer (const_lib 0 None (Returns 0) 2 (\<lambda>d. ''AB''))
          0xC0 0x17 0 1 (PyInt 0) 2 100 world0) = Inr (Received [65, 66])
   \<and> fst (Device_ctrl_transfer (const_lib 0 None (Returns 0) 2 (\<lambda>d. ''AB''))
          0x40 0x50 47 0 (PyInt 0) 2 100 world0) = Inr (Transferred 2)
   \<and> fst (Device_ctrl_transfer (const_lib 0 None (Returns 0) (- 7) (\<lambda>d. d))
          0x40 0x50 47 0 (PyInt 0) 0 100 world0) = Inl (IOError 7 ''USB control transfer failed'')"
proof -
  have enc: "py_encode (py_str (PyInt 0)) = Inr ''0''"
    by (simp add: encode_str_0)
  have a: "fst (Device_ctrl_transfer (const_lib 0 None (Returns 0) 2 (\<lambda>d. ''AB''))
          0xC0 0x17 0 1 (PyInt 0) 2 100 world0) = Inr (Received [65, 66])"
    using ctrl_transfer_result [OF enc, of "const_lib 0 None (Returns 0) 2 (\<lambda>d. ''AB'')"
        "0xC0" "0x17" 0 1 2 100 world0 2 "''AB''" "()"]
    by (simp add: const_lib_simps)
  have b: "fst (Device_ctrl_transfer (const_lib 0 None (Returns 0) 2 (\<lambda>d. ''AB''))
          0x40 0x50 47 0 (PyInt 0) 2 100 world0) = Inr (Transferred 2)"
    using ctrl_transfer_result [OF enc, of "const_lib 0 None (Returns 0) 2 (\<lambda>d. ''AB'')"
        "0x40" "0x50" 47 0 2 100 world0 2 "''AB''" "()"]
    by (simp add: const_lib_simps)
  have c: "fst (Device_ctrl_transfer (const_lib 0 None (Returns 0) (- 7) (\<lambda>d. d))
          0x40 0x50 47 0 (PyInt 0) 0 100 world0) = Inl (IOError 7 ''USB control transfer failed'')"
    using ctrl_transfer_result [OF enc, of "const_lib 0 None (Returns 0) (- 7) (\<lambda>d. d)"
        "0x40" "0x50" 47 0 0 100 world0 "- 7" "''0''" "()"]
    by (simp add: const_lib_simps ctrl_buffer_def)
  show ?thesis using a b c by simp
qed

text \<open>
  The claim as first stated fails: when the library returns the status \<open>-5\<close>, the
  \<^verbatim>\<open>IOError\<close> carries 5, not the negative status.
\<close>

theorem ctrl_transfer_errno_counterexample:
  "fst (Device_ctrl_transfer (const_lib 0 None (Returns 0) (- 5) (\<lambda>d. d))
          0x40 0x50 47 0 (PyInt 0) 0 100 world0)
     = Inl (IOError 5 ''USB control transfer failed'')
   \<and> fst (Device_ctrl_transfer (const_lib 0 None (Returns 0) (- 5) (\<lambda>d. d))
          0x40 0x50 47 0 (PyInt 0) 0 100 world0)
     \<noteq> Inl (IOError (- 5) ''USB control transfer failed'')"
  by (simp add: Device_ctrl_transfer_def call_def const_lib_simps encode_str_0)

subsection \<open>Channels delegate to their device\<close>

text \<open>
  Claim C5. For the channel index 0 or 1, \<^verbatim>\<open>Channel.read(n, t)\<close> is \<^verbatim>\<open>Device.read(n, t)\<close>
  with each sample replaced by its first (index 0) or second (index 1) pair,
  \<^verbatim>\<open>Channel.write(data, cyclic)\<close> is \<^verbatim>\<open>Device.write(data, c, cyclic)\<close>, and
  \<^verbatim>\<open>Channel.get_samples(n)\<close> is the same projection of \<^verbatim>\<open>Device.get_samples(n)\<close>;
  exceptions and effects are the device's.
\<close>

theorem Channel_delegates:
  assumes "c = 0 \<or> c = 1"
  shows "Channel_read lib c n t w =
           (case Device_read lib n t w of
              None \<Rightarrow> None
            | Some (Inl e, w') \<Rightarrow> Some (Inl e, w')
            | Some (Inr xs, w') \<Rightarrow> Some (Inr (map (if c = 0 then fst else snd) xs), w'))
         \<and> Channel_write lib errcode0 c data cyclic w = Device_write lib errcode0 data c cyclic w
         \<and> Channel_get_samples lib c n w =
           (case Device_get_samples lib n w of
              None \<Rightarrow> None
            | Some (Inl e, w') \<Rightarrow> Some (Inl e, w')
            | Some (Inr xs, w') \<Rightarrow> Some (Inr (map (if c = 0 then fst else snd) xs), w'))"
  using assms
  by (auto simp add: Channel_read_def Channel_write_def Channel_get_samples_def index_each_01
      split: option.splits sum.splits prod.splits)

theorem Channel_delegates_witness:
  "((1::int) = 0 \<or> (1::int) = 1)
   \<and> Channel_read lib_read1 1 1 0 world0 =
       Some (Inr [(3, 4)], \<lparr>cpp = (), calls = [Call_device_read 1 0]\<rparr>)
   \<and> Channel_write lib_read1 0 1 [5, 6] True world0 = Device_write lib_read1 0 [5, 6] 1 True world0
   \<and> Channel_get_samples lib_read1 1 1 world0 =
       Some (Inr [(3, 4)], \<lparr>cpp = (), calls = [Call_device_read 1 (- 1)]\<rparr>)"
proof -
  have c: "(1::int) = 0 \<or> (1::int) = 1" by simp
  have r: "Device_read lib_read1 1 t world0 =
      Some (Inr [((1, 2), (3, 4))], \<lparr>cpp = (), calls = [Call_device_read 1 t]\<rparr>)" for t
    by (simp add: Device_read_def call_blocking_def lib_read1_def const_lib_simps read_result_def
        world0_def)
  note inst = Channel_delegates [OF c, of lib_read1 1 _ world0 0 "[5, 6]" True]
  have a: "Channel_read lib_read1 1 1 0 world0 =
       Some (Inr [(3, 4)], \<lparr>cpp = (), calls = [Call_device_read 1 0]\<rparr>)"
    using inst [of 0, THEN conjunct1] by (simp add: r)
  have b: "Channel_get_samples lib_read1 1 1 world0 =
       Some (Inr [(3, 4)], \<lparr>cpp = (), calls = [Call_device_read 1 (- 1)]\<rparr>)"
    using inst [of 0, THEN conjunct2, THEN conjunct2] by (simp add: r Device_get_samples_def)
  show ?thesis
    using a b inst [of 0, THEN conjunct2, THEN conjunct1] by simp
qed

subsection \<open>Dropped samples\<close>

text \<open>
  Claim C2, as amended. When the library signals dropped samples, a \<^verbatim>\<open>RuntimeError\<close>
  whose message starts with \<^verbatim>\<open>'dropped '\<close>, \<^verbatim>\<open>Device.read\<close> does not raise: it
  returns the samples the buffer holds, and nothing else, so the overflow is ignored
  and not reported. \<^verbatim>\<open>Device.write\<close> ignores the exception too and completes when the
  error code it then tests, which the call did not set, is not negative.
\<close>

theorem dropped_samples_ignored:
  assumes "prefix ''dropped '' msg"
  shows "(device_read lib n t (cpp w) = Some ((buf, Throws (RuntimeError msg)), b) \<longrightarrow>
            Device_read lib n t w =
              Some (Inr (map regroup buf), \<lparr>cpp = b, calls = calls w @ [Call_device_read n t]\<rparr>))
         \<and> (device_write lib data channel cyclic (cpp w) = (Throws (RuntimeError msg), b) \<longrightarrow>
            0 \<le> errcode0 \<longrightarrow>
            Device_write lib errcode0 data channel cyclic w =
              (Inr (), \<lparr>cpp = b, calls = calls w @ [Call_device_write data channel cyclic]\<rparr>))"
  using assms
  by (simp add: Device_read_def call_blocking_def read_result_def Device_write_def call_def
      write_result_def)

theorem dropped_samples_ignored_witness:
  "prefix ''dropped '' ''dropped 5 samples''
   \<and> Device_read lib_dropped 1 0 world0 =
       Some (Inr [((1, 2), (3, 4))], \<lparr>cpp = (), calls = [Call_device_read 1 0]\<rparr>)
   \<and> Device_write lib_dropped 0 [5, 6] 1 False world0 =
       (Inr (), \<lparr>cpp = (), calls = [Call_device_write [5, 6] 1 False]\<rparr>)"
proof -
  have p: "prefix ''dropped '' ''dropped 5 samples''" by simp
  note inst = dropped_samples_ignored [OF p, of lib_dropped _ _ world0 "[(1, 2, 3, 4)]" "()"
      "[5, 6]" 1 False 0]
  have a: "Device_read lib_dropped 1 0 world0 =
       Some (Inr [((1, 2), (3, 4))], \<lparr>cpp = (), calls = [Call_device_read 1 0]\<rparr>)"
    using inst [of 1 0, THEN conjunct1] by (simp add: lib_dropped_def const_lib_simps calls_world0)
  have b: "Device_write lib_dropped 0 [5, 6] 1 False world0 =
       (Inr (), \<lparr>cpp = (), calls = [Call_device_write [5, 6] 1 False]\<rparr>)"
    using inst [of 1 0, THEN conjunct2] by (simp add: lib_dropped_def const_lib_simps calls_world0)
  show ?thesis using p a b by simp
qed

text \<open>
  The claim as first stated fails: no advisory comes with the data. A read during
  which 5 samples were dropped returns exactly what a read without any overflow
  returns, and leaves the same world.
\<close>

theorem dropped_not_reported_counterexample:
  "Device_read lib_dropped 1 0 world0 = Device_read lib_read1 1 0 world0
   \<and> Device_read lib_dropped 1 0 world0 =
       Some (Inr [((1, 2), (3, 4))], \<lparr>cpp = (), calls = [Call_device_read 1 0]\<rparr>)"
  by (simp add: Device_read_def call_blocking_def read_result_def lib_dropped_def lib_read1_def
      const_lib_simps world0_def)

text \<open>
  What the amended claim leaves open: when the unset variable holds a negative value,
  \<^verbatim>\<open>Device.write\<close> raises \<^verbatim>\<open>DeviceError\<close> after ignoring the exception, where
  \<^verbatim>\<open>Device.read\<close>, whose \<^verbatim>\<open>ret\<close> starts at 0, returns.
\<close>

lemma write_dropped_unset_errcode:
  "Device_write lib_dropped (- 1) [5, 6] 1 False world0 =
     (Inl (DeviceError ''failed writing to device'' (Some (- 1))),
      \<lparr>cpp = (), calls = [Call_device_write [5, 6] 1 False]\<rparr>)"
  by (simp add: Device_write_def call_def write_result_def lib_dropped_def const_lib_simps
      world0_def)

subsection \<open>LEDs\<close>

lemma led_transfer_calls:
  "calls (snd (Device_ctrl_transfer lib 0x40 req v 0 (PyInt 0) 0 100 w))
     = calls w @ [Call_device_ctrl_transfer 0x40 req v 0 ''0'' 0 100]"
  by (simp add: Device_ctrl_transfer_def encode_str_0 ctrl_buffer_def ctrl_length_def call_def
      split: prod.splits)

lemma LED_members_order: "LED_members = [all, blue, green, red]"
  by (simp add: LED_members_def)

lemma set_led_all_unfold:
  "Device_set_led lib (PyLED all) status w =
     set_led_each lib (if status then 0x50 else 0x51) [blue, green, red] w"
  by (simp add: Device_set_led_def LED_members_order)

text \<open>
  Claim C8, as amended. \<^verbatim>\<open>Device.set_led\<close> is made of \<^verbatim>\<open>ctrl_transfer\<close> calls only,
  with the request \<^verbatim>\<open>0x50\<close> (on) or \<^verbatim>\<open>0x51\<close> (off). For a single LED it is one
  transfer with the LED's value, so exactly one call reaches the library. For
  \<^verbatim>\<open>LED.all\<close> it is one transfer for each of the three LEDs, in the order the
  enumeration yields them (blue, green, red), each with the same request, stopping at
  the first that raises: between one and three calls reach the library, and whenever
  the method returns all three have been made.
\<close>

theorem set_led_transfers:
  "(l \<noteq> all \<longrightarrow>
      Device_set_led lib (PyLED l) status w =
        (case led_transfer lib (if status then 0x50 else 0x51) (LED_value l) w of
           (Inl e, w') \<Rightarrow> (Inl e, w')
         | (Inr r, w') \<Rightarrow> (Inr (), w'))
      \<and> calls (snd (Device_set_led lib (PyLED l) status w))
          = calls w @ [led_call (if status then 0x50 else 0x51) (LED_value l)])
   \<and> Device_set_led lib (PyLED all) status w =
        (case led_transfer lib (if status then 0x50 else 0x51) (LED_value blue) w of
           (Inl e, w1) \<Rightarrow> (Inl e, w1)
         | (Inr r, w1) \<Rightarrow>
             (case led_transfer lib (if status then 0x50 else 0x51) (LED_value green) w1 of
                (Inl e, w2) \<Rightarrow> (Inl e, w2)
              | (Inr r, w2) \<Rightarrow>
                  (case led_transfer lib (if status then 0x50 else 0x51) (LED_value red) w2 of
                     (Inl e, w3) \<Rightarrow> (Inl e, w3)
                   | (Inr r, w3) \<Rightarrow> (Inr (), w3))))
   \<and> (\<exists>k. 1 \<le> k \<and> k \<le> 3
          \<and> calls (snd (Device_set_led lib (PyLED all) status w))
              = calls w @ take k (map (led_call (if status then 0x50 else 0x51))
                  (map LED_value [blue, green, red])))
   \<and> (fst (Device_set_led lib (PyLED all) status w) = Inr () \<longrightarrow>
        calls (snd (Device_set_led lib (PyLED all) status w))
          = calls w @ map (led_call (if status then 0x50 else 0x51))
              (map LED_value [blue, green, red]))"
proof -
  define req :: int where "req = (if status then 0x50 else 0x51)"
  have single: "l \<noteq> all \<Longrightarrow>
      Device_set_led lib (PyLED l) status w =
        (case led_transfer lib req (LED_value l) w of
           (Inl e, w') \<Rightarrow> (Inl e, w')
         | (Inr r, w') \<Rightarrow> (Inr (), w'))"
    by (simp add: Device_set_led_def led_transfer_def req_def)
  have single_calls: "l \<noteq> all \<Longrightarrow>
      calls (snd (Device_set_led lib (PyLED l) status w)) = calls w @ [led_call req (LED_value l)]"
    using led_transfer_calls [of lib req "LED_value l" w]
    by (auto simp add: single led_transfer_def led_call_def split: prod.splits sum.splits)
  have all_eq: "Device_set_led lib (PyLED all) status w =
        (case led_transfer lib req (LED_value blue) w of
           (Inl e, w1) \<Rightarrow> (Inl e, w1)
         | (Inr r, w1) \<Rightarrow>
             (case led_transfer lib req (LED_value green) w1 of
                (Inl e, w2) \<Rightarrow> (Inl e, w2)
              | (Inr r, w2) \<Rightarrow>
                  (case led_transfer lib req (LED_value red) w2 of
                     (Inl e, w3) \<Rightarrow> (Inl e, w3)
                   | (Inr r, w3) \<Rightarrow> (Inr (), w3))))"
    by (simp add: set_led_all_unfold led_transfer_def req_def split: prod.splits sum.splits)
  obtain r1 w1 where t1: "led_transfer lib req 28 w = (r1, w1)"
    by (cases "led_transfer lib req 28 w")
  obtain r2 w2 where t2: "led_transfer lib req 29 w1 = (r2, w2)"
    by (cases "led_transfer lib req 29 w1")
  obtain r3 w3 where t3: "led_transfer lib req 47 w2 = (r3, w3)"
    by (cases "led_transfer lib req 47 w2")
  have c1: "calls w1 = calls w @ [led_call req 28]"
    using led_transfer_calls [of lib req 28 w] t1
    by (simp add: led_transfer_def led_call_def)
  have c2: "calls w2 = calls w1 @ [led_call req 29]"
    using led_transfer_calls [of lib req 29 w1] t2
    by (simp add: led_transfer_def led_call_def)
  have c3: "calls w3 = calls w2 @ [led_call req 47]"
    using led_transfer_calls [of lib req 47 w2] t3
    by (simp add: led_transfer_def led_call_def)
  have all_calls: "calls (snd (Device_set_led lib (PyLED all) status w)) =
      calls w @ take (if isl r1 then 1 else if isl r2 then 2 else 3)
        (map (led_call req) (map LED_value [blue, green, red]))"
    by (cases r1; cases r2; cases r3) (simp_all add: all_eq t1 t2 t3 c1 c2 c3)
  have all_ok: "fst (Device_set_led lib (PyLED all) status w) = Inr () \<Longrightarrow>
      \<not> isl r1 \<and> \<not> isl r2"
    by (cases r1; cases r2; cases r3) (simp_all add: all_eq t1 t2 t3)
  have ex: "\<exists>k. 1 \<le> k \<and> k \<le> 3
          \<and> calls (snd (Device_set_led lib (PyLED all) status w))
              = calls w @ take k (map (led_call req) (map LED_value [blue, green, red]))"
    by (rule exI [of _ "if isl r1 then 1 else if isl r2 then 2 else 3"]) (simp add: all_calls)
  have full: "fst (Device_set_led lib (PyLED all) status w) = Inr () \<Longrightarrow>
        calls (snd (Device_set_led lib (PyLED all) status w))
          = calls w @ map (led_call req) (map LED_value [blue, green, red])"
    using all_ok all_calls by simp
  show ?thesis
    using single single_calls all_eq ex full unfolding req_def by blast
qed

theorem set_led_transfers_witness:
  "green \<noteq> all
   \<and> Device_set_led lib0 (PyLED green) False world0 =
       (Inr (), \<lparr>cpp = (), calls = [Call_device_ctrl_transfer 0x40 0x51 29 0 ''0'' 0 100]\<rparr>)
   \<and> Device_set_led lib0 (PyLED all) True world0 =
       (Inr (), \<lparr>cpp = (), calls = [Call_device_ctrl_transfer 0x40 0x50 28 0 ''0'' 0 100,
          Call_device_ctrl_transfer 0x40 0x50 29 0 ''0'' 0 100,
          Call_device_ctrl_transfer 0x40 0x50 47 0 ''0'' 0 100]\<rparr>)"
proof -
  have t: "led_transfer lib0 req v w =
      (Inr (Transferred 0), \<lparr>cpp = cpp w, calls = calls w @ [led_call req v]\<rparr>)"
    for req v and w :: "(unit, int) world"
    by (simp add: led_transfer_def led_call_def Device_ctrl_transfer_def encode_str_0
        ctrl_buffer_def ctrl_length_def call_def lib0_def const_lib_simps)
  note inst1 = set_led_transfers [of green lib0 False world0, THEN conjunct1]
  note inst2 = set_led_transfers [of green lib0 True world0, THEN conjunct2, THEN conjunct1]
  have a: "Device_set_led lib0 (PyLED green) False world0 =
       (Inr (), \<lparr>cpp = (), calls = [Call_device_ctrl_transfer 0x40 0x51 29 0 ''0'' 0 100]\<rparr>)"
    using inst1 by (simp add: t led_call_def calls_world0)
  have b: "Device_set_led lib0 (PyLED all) True world0 =
       (Inr (), \<lparr>cpp = (), calls = [Call_device_ctrl_transfer 0x40 0x50 28 0 ''0'' 0 100,
          Call_device_ctrl_transfer 0x40 0x50 29 0 ''0'' 0 100,
          Call_device_ctrl_transfer 0x40 0x50 47 0 ''0'' 0 100]\<rparr>)"
    using inst2 by (simp add: t led_call_def calls_world0)
  show ?thesis using a b by simp
qed

text \<open>
  The claim as first stated fails: when the first transfer fails, \<^verbatim>\<open>set_led\<close> for
  \<^verbatim>\<open>LED.all\<close> raises after that one transfer, and the other two LEDs get none.
\<close>

theorem set_led_all_counterexample:
  "Device_set_led (const_lib 0 None (Returns 0) (- 1) (\<lambda>d. d)) (PyLED all) True world0 =
     (Inl (IOError 1 ''USB control transfer failed''),
      \<lparr>cpp = (), calls = [Call_device_ctrl_transfer 0x40 0x50 28 0 ''0'' 0 100]\<rparr>)"
  by (simp add: set_led_all_unfold led_transfer_def Device_ctrl_transfer_def encode_str_0
        ctrl_buffer_def ctrl_length_def call_def const_lib_simps calls_world0 world0_def)

text \<open>
  All three transfers do not mean that the method returns: when the third transfer
  fails, all three have been made and \<^verbatim>\<open>set_led\<close> raises.
\<close>

lemma set_led_all_third_fails:
  "Device_set_led lib_fail_third (PyLED all) True \<lparr>cpp = 0, calls = []\<rparr> =
     (Inl (IOError 1 ''USB control transfer failed''),
      \<lparr>cpp = 3, calls = [Call_device_ctrl_transfer 0x40 0x50 28 0 ''0'' 0 100,
          Call_device_ctrl_transfer 0x40 0x50 29 0 ''0'' 0 100,
          Call_device_ctrl_transfer 0x40 0x50 47 0 ''0'' 0 100]\<rparr>)"
  by (simp add: set_led_all_unfold led_transfer_def Device_ctrl_transfer_def encode_str_0
        ctrl_buffer_def ctrl_length_def call_def lib_fail_third_def eval_nat_numeral)

subsection \<open>Channel modes on the device of the specification\<close>

lemma smu_lib_simps:
  "device_read (smu_lib code) = smu_read"
  "device_set_mode (smu_lib code) = smu_set_mode code"
  "device_get_mode (smu_lib code) = smu_get_mode"
  by (simp_all add: smu_lib_def)

text \<open>
  Claim C3. On the device of the specification, setting a channel's mode while the
  device is running is rejected: the InvalidState code of \<^verbatim>\<open>set_mode\<close> comes back in
  a \<^verbatim>\<open>DeviceError\<close>, and the device is unchanged. While it is idle the assignment
  succeeds, and reading the channel's mode afterwards returns the mode just set.
\<close>

theorem set_mode_running_idle:
  assumes "InvalidState \<noteq> 0"
  shows "(running (cpp w) \<longrightarrow>
            Channel_mode_set (smu_lib InvalidState) chan (PyMode m) w =
              (Inl (DeviceError (''failed setting mode '' @ py_str (PyMode m) @ '': '')
                      (Some InvalidState)),
               \<lparr>cpp = cpp w, calls = calls w @ [Call_device_set_mode chan (Mode_value m)]\<rparr>))
         \<and> (\<not> running (cpp w) \<longrightarrow>
            (\<exists>w'. Channel_mode_set (smu_lib InvalidState) chan (PyMode m) w = (Inr (), w')
                \<and> fst (Channel_mode_get (smu_lib InvalidState) chan w') = Inr m))"
  using assms
  by (cases m)
     (simp_all add: Channel_mode_set_def Channel_mode_get_def smu_lib_simps smu_set_mode_def
      smu_get_mode_def call_def Mode_of_value_def)

theorem set_mode_running_idle_witness:
  "(- 16 :: int) \<noteq> 0
   \<and> running (cpp smu_streaming)
   \<and> fst (Channel_mode_set (smu_lib (- 16)) 0 (PyMode SVMI) smu_streaming) =
       Inl (DeviceError ''failed setting mode Mode.SVMI: '' (Some (- 16)))
   \<and> \<not> running (cpp smu_idle)
   \<and> (\<exists>w'. Channel_mode_set (smu_lib (- 16)) 0 (PyMode SVMI) smu_idle = (Inr (), w')
          \<and> fst (Channel_mode_get (smu_lib (- 16)) 0 w') = Inr SVMI)"
proof -
  have c: "(- 16 :: int) \<noteq> 0" by simp
  have r: "running (cpp smu_streaming)" by (simp add: smu_streaming_def)
  have i: "\<not> running (cpp smu_idle)" by (simp add: smu_idle_def)
  show ?thesis
    using set_mode_running_idle [OF c, of smu_streaming 0 SVMI]
      set_mode_running_idle [OF c, of smu_idle 0 SVMI] r i
    by simp
qed

subsection \<open>Blocking reads on the device of the specification\<close>

lemma wait_samples_Complete:
  "wait_samples k acc es = Some (buf, Complete, es') \<Longrightarrow> length buf = length acc + k"
  by (induction k acc es rule: wait_samples.induct) auto

lemma wait_samples_Stopped:
  "wait_samples k acc es = Some (buf, Stopped, es') \<Longrightarrow> \<exists>pre. es = pre @ Cancelled # es'"
proof (induction k acc es rule: wait_samples.induct)
  case (3 k acc x es)
  then obtain pre where "es = pre @ Cancelled # es'" by auto
  then have "Sample x # es = (Sample x # pre) @ Cancelled # es'" by simp
  then show ?case by blast
next
  case (4 k acc es)
  then have "Cancelled # es = [] @ Cancelled # es'" by simp
  then show ?case by blast
qed auto

lemma wait_samples_ahead:
  "k \<le> samples_ahead es \<Longrightarrow>
     \<exists>buf es'. wait_samples k acc es = Some (buf, Complete, es')"
proof (induction k acc es rule: wait_samples.induct)
  case (3 k acc x es)
  then show ?case by simp
qed auto

lemma wait_samples_blocked:
  "length es < k \<Longrightarrow> samples_ahead es = length es \<Longrightarrow> wait_samples k acc es = None"
  by (induction k acc es rule: wait_samples.induct) auto

lemma read_outcome_end:
  "read_outcome (fst (smu_read_end d buf rest e es)) =
     (case e of
        Failed c \<Rightarrow> Inl (DeviceError ''failed reading from device'' (Some (- int (Suc c))))
      | _ \<Rightarrow> Inr (map regroup buf))"
  by (cases e) (auto simp add: smu_read_end_def read_result_def Let_def)

lemma pending_end: "pending (snd (smu_read_end d buf rest e es)) = es"
  by (cases e) (auto simp add: smu_read_end_def Let_def)

lemma Device_read_smu:
  "Device_read (smu_lib code) n (- 1) w =
     (case wait_samples (nat n - length (take (nat n) (in_queue (cpp w))))
             (take (nat n) (in_queue (cpp w))) (pending (cpp w)) of
        None \<Rightarrow> None
      | Some (buf, e, es) \<Rightarrow>
          Some (read_outcome (fst (smu_read_end (cpp w) buf (drop (nat n) (in_queue (cpp w))) e es)),
                \<lparr>cpp = snd (smu_read_end (cpp w) buf (drop (nat n) (in_queue (cpp w))) e es),
                 calls = calls w @ [Call_device_read n (- 1)]\<rparr>))"
  by (auto simp add: Device_read_def call_blocking_def smu_lib_simps smu_read_def Let_def
      split: option.splits prod.splits)

text \<open>
  Claim C1. On the device of the specification, for \<open>num_samples \<ge> 0\<close>:
  \<^verbatim>\<open>Device.read(num_samples, -1)\<close> returns a list of exactly \<open>num_samples\<close> samples
  when the queue and the samples that arrive before anything else happens provide that
  many; whenever it returns a list, the list has exactly \<open>num_samples\<close> samples unless
  the call consumed a cancellation; it does not return when samples are all that
  arrives and they are too few; and \<^verbatim>\<open>Device.get_samples(num_samples)\<close> is the same
  call.
\<close>

theorem read_blocking_exact:
  assumes "0 \<le> n"
  shows "(nat n \<le> length (in_queue (cpp w)) + samples_ahead (pending (cpp w)) \<longrightarrow>
            (\<exists>xs w'. Device_read (smu_lib code) n (- 1) w = Some (Inr xs, w')
                \<and> length xs = nat n))
         \<and> (\<forall>xs w'. Device_read (smu_lib code) n (- 1) w = Some (Inr xs, w') \<longrightarrow>
              length xs = nat n \<or> (\<exists>pre. pending (cpp w) = pre @ Cancelled # pending (cpp w')))
         \<and> (length (in_queue (cpp w)) + length (pending (cpp w)) < nat n
              \<and> samples_ahead (pending (cpp w)) = length (pending (cpp w)) \<longrightarrow>
              Device_read (smu_lib code) n (- 1) w = None)
         \<and> Device_get_samples (smu_lib code) n w = Device_read (smu_lib code) n (- 1) w"
proof (intro conjI impI allI)
  let ?avail = "take (nat n) (in_queue (cpp w))"
  let ?k = "nat n - length ?avail"
  have len: "length ?avail + ?k = nat n" by simp
  {
    assume "nat n \<le> length (in_queue (cpp w)) + samples_ahead (pending (cpp w))"
    then have "?k \<le> samples_ahead (pending (cpp w))" by simp
    then obtain buf es' where ws: "wait_samples ?k ?avail (pending (cpp w)) = Some (buf, Complete, es')"
      using wait_samples_ahead by blast
    then have "length buf = nat n"
      using wait_samples_Complete [OF ws] len by simp
    then show "\<exists>xs w'. Device_read (smu_lib code) n (- 1) w = Some (Inr xs, w') \<and> length xs = nat n"
      by (simp add: Device_read_smu ws read_outcome_end del: length_take)
  }
  {
    fix xs w'
    assume rd: "Device_read (smu_lib code) n (- 1) w = Some (Inr xs, w')"
    then obtain buf e es where ws: "wait_samples ?k ?avail (pending (cpp w)) = Some (buf, e, es)"
      and xs: "read_outcome (fst (smu_read_end (cpp w) buf (drop (nat n) (in_queue (cpp w))) e es)) = Inr xs"
      and w': "pending (cpp w') = es"
      by (auto simp add: Device_read_smu pending_end simp del: length_take split: option.splits)
    show "length xs = nat n \<or> (\<exists>pre. pending (cpp w) = pre @ Cancelled # pending (cpp w'))"
    proof (cases e)
      case Complete
      then have "length buf = nat n"
        using wait_samples_Complete [of ?k ?avail "pending (cpp w)" buf es] ws len by simp
      moreover have "xs = map regroup buf"
        using xs Complete by (simp add: read_outcome_end)
      ultimately show ?thesis by simp
    next
      case Stopped
      then show ?thesis
        using wait_samples_Stopped [of ?k ?avail "pending (cpp w)" buf es] ws w' by simp
    next
      case (Failed c)
      then show ?thesis using xs by (simp add: read_outcome_end)
    qed
  }
  {
    assume "length (in_queue (cpp w)) + length (pending (cpp w)) < nat n
              \<and> samples_ahead (pending (cpp w)) = length (pending (cpp w))"
    then have "length (pending (cpp w)) < ?k"
      and "samples_ahead (pending (cpp w)) = length (pending (cpp w))"
      by (auto simp add: min_def)
    then have "wait_samples ?k ?avail (pending (cpp w)) = None"
      by (rule wait_samples_blocked)
    then show "Device_read (smu_lib code) n (- 1) w = None"
      by (simp add: Device_read_smu del: length_take)
  }
  show "Device_get_samples (smu_lib code) n w = Device_read (smu_lib code) n (- 1) w"
    by (simp add: Device_get_samples_def)
qed

theorem read_blocking_exact_witness:
  "(0::int) \<le> 3
   \<and> nat 3 \<le> length (in_queue (cpp smu_idle)) + samples_ahead (pending (cpp smu_idle))
   \<and> (\<exists>xs w'. Device_read (smu_lib (- 16)) 3 (- 1) smu_idle = Some (Inr xs, w') \<and> length xs = 3)
   \<and> Device_get_samples (smu_lib (- 16)) 3 smu_idle = Device_read (smu_lib (- 16)) 3 (- 1) smu_idle"
proof -
  have n: "(0::int) \<le> 3" by simp
  have a: "nat 3 \<le> length (in_queue (cpp smu_idle)) + samples_ahead (pending (cpp smu_idle))"
    by (simp add: smu_idle_def)
  show ?thesis
    using read_blocking_exact [OF n, of smu_idle "- 16"] a by simp
qed

text \<open>
  Three runs on a device with one queued sample, three dropped samples, and two samples
  then a cancellation to come: a read of 3 returns 3 samples, a read of 4 is cut short
  by the cancellation, and with nothing to come a read of 4 does not return.
\<close>

lemma read_blocking_examples:
  "fst (the (Device_read (smu_lib (- 16)) 3 (- 1) smu_idle)) =
     Inr [((1, 2), (3, 4)), ((5, 6), (7, 8)), ((9, 10), (11, 12))]"
  "fst (the (Device_read (smu_lib (- 16)) 4 (- 1) smu_idle)) =
     Inr [((1, 2), (3, 4)), ((5, 6), (7, 8)), ((9, 10), (11, 12))]"
  "Device_read (smu_lib (- 16)) 4 (- 1) (smu_idle\<lparr>cpp := (cpp smu_idle)\<lparr>pending := []\<rparr>\<rparr>) = None"
  by (simp_all add: Device_read_smu smu_idle_def read_outcome_end eval_nat_numeral)

end
